theory Spec2Isabelle
  imports Main "HOL-Library.AList"
begin

section \<open>Python values and text\<close>

text \<open>
  Objects of the classes Book and Shelf are mutable and shared: a shelf stores references
  to Book objects, and a caller that keeps a reference sees every later change. Objects
  therefore live in a store and are named by their address.
\<close>

type_synonym ref = nat

text \<open>
  The arguments that the methods receive: a string, an integer, a Book instance or a
  Shelf instance.
\<close>

datatype pyval = Str string | Intg int | BookRef ref | ShelfRef ref

datatype py_error = AttributeError | TypeError

text \<open>\<^verbatim>\<open>isinstance(x, Book)\<close>\<close>

definition is_Book :: "pyval \<Rightarrow> bool" where
  "is_Book v = (case v of BookRef r \<Rightarrow> True | _ \<Rightarrow> False)"

text \<open>\<^verbatim>\<open>str\<close> of a Python integer: an optional minus sign and the decimal digits.\<close>

definition digit_char :: "nat \<Rightarrow> char" where
  "digit_char d = ''0123456789'' ! d"

function str_nat :: "nat \<Rightarrow> string" where
  "str_nat n = (if n < 10 then [digit_char n] else str_nat (n div 10) @ [digit_char (n mod 10)])"
  by pat_completeness auto
termination
  by (relation "measure (\<lambda>n. n)") auto

declare str_nat.simps [simp del]

definition str_int :: "int \<Rightarrow> string" where
  "str_int i = (if i < 0 then CHR ''-'' # str_nat (nat (- i)) else str_nat (nat i))"

text \<open>
  \<^verbatim>\<open>str.title()\<close> on a byte string: a cased character that follows an uncased one is
  made upper case, a cased character that follows a cased one is made lower case, and
  every other character is kept.
\<close>

definition islower :: "char \<Rightarrow> bool" where
  "islower c = (97 \<le> (of_char c :: nat) \<and> (of_char c :: nat) \<le> 122)"

definition isupper :: "char \<Rightarrow> bool" where
  "isupper c = (65 \<le> (of_char c :: nat) \<and> (of_char c :: nat) \<le> 90)"

definition toupper :: "char \<Rightarrow> char" where
  "toupper c = (if islower c then char_of ((of_char c :: nat) - 32) else c)"

definition tolower :: "char \<Rightarrow> char" where
  "tolower c = (if isupper c then char_of ((of_char c :: nat) + 32) else c)"

fun title_from :: "bool \<Rightarrow> string \<Rightarrow> string" where
  "title_from previous_is_cased [] = []"
| "title_from previous_is_cased (c # cs) =
     (if islower c then
        (if previous_is_cased then c else toupper c) # title_from True cs
      else if isupper c then
        (if previous_is_cased then tolower c else c) # title_from True cs
      else c # title_from False cs)"

definition str_title :: "string \<Rightarrow> string" where
  "str_title s = title_from False s"


section \<open>Book\<close>

text \<open>
  The fields of a Book. \<open>copies\<close> is the attribute \<^verbatim>\<open>_copies\<close> (the copies on the
  shelf, available for check-out) and \<open>maxcopies\<close> is \<^verbatim>\<open>_maxcopies\<close> (all the copies
  the library owns). Python integers are unbounded.
\<close>

record book =
  title :: string
  author :: string
  page_count :: int
  desc :: string
  copies :: int
  maxcopies :: int

text \<open>
  \<^verbatim>\<open>Book.__init__(self, title, author="", page_count=0, desc="", copies=1)\<close>.
  No argument is checked.
\<close>

definition Book_init :: "string \<Rightarrow> string \<Rightarrow> int \<Rightarrow> string \<Rightarrow> int \<Rightarrow> book" where
  "Book_init title_arg author_arg page_count_arg desc_arg copies_arg =
     \<lparr>title = title_arg, author = author_arg, page_count = page_count_arg,
      desc = desc_arg, copies = copies_arg, maxcopies = copies_arg\<rparr>"

text \<open>\<^verbatim>\<open>Book(title)\<close>: every other argument takes its default.\<close>

definition Book_titled :: "string \<Rightarrow> book" where
  "Book_titled title_arg = Book_init title_arg '''' 0 '''' 1"

definition copy_str :: "book \<Rightarrow> string" where
  "copy_str self = str_int (copies self) @ '' / '' @ str_int (maxcopies self)"

text \<open>\<^verbatim>\<open>Book.__str__\<close>: five lines, joined by newlines.\<close>

definition Book_str :: "book \<Rightarrow> string" where
  "Book_str self =
     ''Title: '' @ title self @ [CHR 0x0A] @
     ''Author: '' @ author self @ [CHR 0x0A] @
     ''Pages: '' @ str_int (page_count self) @ [CHR 0x0A] @
     ''Copies: '' @ copy_str self @ [CHR 0x0A] @
     ''Description: '' @ desc self"

definition add_copy :: "book \<Rightarrow> book" where
  "add_copy self = self\<lparr>copies := copies self + 1, maxcopies := maxcopies self + 1\<rparr>"

text \<open>
  The methods that print return the lines that they print, next to the new value of the
  object.
\<close>

definition report_copies :: "book \<Rightarrow> string list" where
  "report_copies self = [title self @ '' now has '' @ copy_str self @ '' copies.'']"

text \<open>\<^verbatim>\<open>if self._copies:\<close> holds for every integer other than zero.\<close>

definition check_out :: "book \<Rightarrow> book \<times> string list" where
  "check_out self =
     (if copies self \<noteq> 0 then
        (let self' = self\<lparr>copies := copies self - 1\<rparr> in (self', report_copies self'))
      else (self, [''Cannot check out '' @ title self @ '': no more copies!'']))"

definition check_in :: "book \<Rightarrow> book \<times> string list" where
  "check_in self =
     (if copies self < maxcopies self then
        (let self' = self\<lparr>copies := copies self + 1\<rparr> in (self', report_copies self'))
      else (self, [''All copies of '' @ title self @ '' already accounted for!'']))"

text \<open>
  A caller's sequence of calls on one Book: each call is one of the three methods that
  change the counts.
\<close>

datatype book_call = Add_copy | Check_out | Check_in

fun call_book :: "book \<Rightarrow> book_call \<Rightarrow> book" where
  "call_book b Add_copy = add_copy b"
| "call_book b Check_out = fst (check_out b)"
| "call_book b Check_in = fst (check_in b)"

definition call_books :: "book \<Rightarrow> book_call list \<Rightarrow> book" where
  "call_books b cs = foldl call_book b cs"

definition copies_ok :: "book \<Rightarrow> bool" where
  "copies_ok b = (0 \<le> copies b \<and> copies b \<le> maxcopies b)"


section \<open>The store\<close>

text \<open>
  A Shelf holds its name and the dictionary \<^verbatim>\<open>_books\<close>, from keys to Book objects. The
  dictionary is a list of pairs with distinct keys; \<open>map_of\<close> looks a key up and the
  length is the number of entries. Keys are Python values: two keys are equal when they
  are the same string, the same integer or the same object.
\<close>

record shelf =
  shelf_name :: string
  books :: "(pyval \<times> ref) list"

text \<open>
  The store: the Book objects and the Shelf objects created so far, each at the address
  that is its index, and the lines printed so far.
\<close>

record state =
  book_heap :: "book list"
  shelf_heap :: "shelf list"
  stdout :: "string list"

definition new_book :: "book \<Rightarrow> state \<Rightarrow> ref \<times> state" where
  "new_book b st = (length (book_heap st), st\<lparr>book_heap := book_heap st @ [b]\<rparr>)"

definition new_shelf :: "shelf \<Rightarrow> state \<Rightarrow> ref \<times> state" where
  "new_shelf s st = (length (shelf_heap st), st\<lparr>shelf_heap := shelf_heap st @ [s]\<rparr>)"

definition print :: "string \<Rightarrow> state \<Rightarrow> state" where
  "print line st = st\<lparr>stdout := stdout st @ [line]\<rparr>"


section \<open>Shelf\<close>

definition Shelf_init :: "string \<Rightarrow> shelf" where
  "Shelf_init name_arg = \<lparr>shelf_name = name_arg, books = []\<rparr>"

definition Shelf_str :: "shelf \<Rightarrow> string" where
  "Shelf_str self = shelf_name self"

text \<open>\<^verbatim>\<open>str(x)\<close>, which goes through \<^verbatim>\<open>__str__\<close> for a Book and for a Shelf.\<close>

definition py_str :: "state \<Rightarrow> pyval \<Rightarrow> string" where
  "py_str st v =
     (case v of
        Str s \<Rightarrow> s
      | Intg i \<Rightarrow> str_int i
      | BookRef r \<Rightarrow> Book_str (book_heap st ! r)
      | ShelfRef r \<Rightarrow> Shelf_str (shelf_heap st ! r))"

text \<open>\<^verbatim>\<open>Shelf.get_book\<close> returns the Book, or prints and returns nothing.\<close>

definition get_book :: "ref \<Rightarrow> pyval \<Rightarrow> state \<Rightarrow> ref option \<times> state" where
  "get_book self title_arg st =
     (case map_of (books (shelf_heap st ! self)) title_arg of
        Some b \<Rightarrow> (Some b, st)
      | None \<Rightarrow>
          (None, print (py_str st title_arg @ '' not found in ''
                         @ shelf_name (shelf_heap st ! self) @ ''!'') st))"

text \<open>
  The first half of the loop body of \<^verbatim>\<open>Shelf.add_books\<close>: the key and the Book for one
  argument. An argument that is not a Book is stringified and title-cased, and a new Book
  with that title is created.
\<close>

definition book_item :: "pyval \<Rightarrow> state \<Rightarrow> pyval \<times> ref \<times> state" where
  "book_item item st =
     (case item of
        BookRef r \<Rightarrow> (Str (title (book_heap st ! r)), r, st)
      | _ \<Rightarrow>
          (let book_key = str_title (py_str st item);
               (r, st') = new_book (Book_titled book_key) st
           in (Str book_key, r, st')))"

text \<open>
  The whole loop body: when the key is in the dictionary the Book stored there gets a
  copy, otherwise the Book of the argument is stored under the key.
\<close>

definition add_book_item :: "ref \<Rightarrow> state \<Rightarrow> pyval \<Rightarrow> state" where
  "add_book_item self st item =
     (let (book_key, book_to_add, st1) = book_item item st
      in case map_of (books (shelf_heap st1 ! self)) book_key of
           Some r \<Rightarrow> st1\<lparr>book_heap := (book_heap st1)[r := add_copy (book_heap st1 ! r)]\<rparr>
         | None \<Rightarrow>
             st1\<lparr>shelf_heap := (shelf_heap st1)
                   [self := (shelf_heap st1 ! self)
                      \<lparr>books := AList.update book_key book_to_add
                                 (books (shelf_heap st1 ! self))\<rparr>]\<rparr>)"

definition add_books :: "ref \<Rightarrow> pyval list \<Rightarrow> state \<Rightarrow> state" where
  "add_books self args st = foldl (add_book_item self) st args"

definition remove_book :: "ref \<Rightarrow> pyval \<Rightarrow> state \<Rightarrow> state" where
  "remove_book self title_arg st =
     (case map_of (books (shelf_heap st ! self)) title_arg of
        Some b \<Rightarrow>
          st\<lparr>shelf_heap := (shelf_heap st)
                [self := (shelf_heap st ! self)
                   \<lparr>books := AList.delete title_arg (books (shelf_heap st ! self))\<rparr>]\<rparr>
      | None \<Rightarrow>
          print (py_str st title_arg @ '' not found in ''
                  @ shelf_name (shelf_heap st ! self) @ ''!'') st)"


section \<open>Book and its shelf\<close>

text \<open>
  \<^verbatim>\<open>Book.enshelf\<close> and \<^verbatim>\<open>Book.unshelf\<close> call a method of the shelf by name. Class
  Shelf defines \<^verbatim>\<open>get_book\<close>, \<^verbatim>\<open>add_books\<close>, \<^verbatim>\<open>remove_book\<close> and \<^verbatim>\<open>report_books\<close>,
  next to \<^verbatim>\<open>__init__\<close> and \<^verbatim>\<open>__str__\<close>, and an instance has the fields \<^verbatim>\<open>name\<close> and
  \<^verbatim>\<open>_books\<close>. The table below holds the four methods; the special methods and the fields
  are left out, as neither of the two names looked up here is one of them. A name that a
  Shelf does not have raises AttributeError before anything is called.
\<close>

datatype shelf_method = M_get_book | M_add_books | M_remove_book | M_report_books

definition Shelf_getattr :: "string \<Rightarrow> shelf_method option" where
  "Shelf_getattr attr =
     map_of [(''get_book'', M_get_book), (''add_books'', M_add_books),
             (''remove_book'', M_remove_book), (''report_books'', M_report_books)] attr"

text \<open>
  A call of the method found, with one argument after \<open>self\<close>. \<^verbatim>\<open>report_books\<close> takes no
  argument, so that call raises TypeError.
\<close>

fun Shelf_call :: "shelf_method \<Rightarrow> ref \<Rightarrow> pyval \<Rightarrow> state \<Rightarrow> py_error + state" where
  "Shelf_call M_get_book self arg st = Inr (snd (get_book self arg st))"
| "Shelf_call M_add_books self arg st = Inr (add_books self [arg] st)"
| "Shelf_call M_remove_book self arg st = Inr (remove_book self arg st)"
| "Shelf_call M_report_books self arg st = Inl TypeError"

text \<open>\<^verbatim>\<open>shelf.add_book(self)\<close>\<close>

definition enshelf :: "ref \<Rightarrow> ref \<Rightarrow> state \<Rightarrow> py_error + state" where
  "enshelf self shelf_arg st =
     (case Shelf_getattr ''add_book'' of
        None \<Rightarrow> Inl AttributeError
      | Some m \<Rightarrow> Shelf_call m shelf_arg (BookRef self) st)"

text \<open>\<^verbatim>\<open>shelf.remove_book(self)\<close>\<close>

definition unshelf :: "ref \<Rightarrow> ref \<Rightarrow> state \<Rightarrow> py_error + state" where
  "unshelf self shelf_arg st =
     (case Shelf_getattr ''remove_book'' of
        None \<Rightarrow> Inl AttributeError
      | Some m \<Rightarrow> Shelf_call m shelf_arg (BookRef self) st)"


section \<open>Library\<close>

text \<open>
  A Library holds its name and the dictionary \<^verbatim>\<open>_shelves\<close>, from keys to Shelf objects.
  Its methods change no object but the library itself, so a library is passed by value.
\<close>

record library =
  library_name :: string
  shelves :: "(pyval \<times> ref) list"

definition Library_init :: "string \<Rightarrow> library" where
  "Library_init name_arg = \<lparr>library_name = name_arg, shelves = []\<rparr>"

text \<open>
  The first half of the loop body of \<^verbatim>\<open>Library.add_shelves\<close>. Only a Shelf has the
  attribute \<^verbatim>\<open>name\<close>; for every other argument the AttributeError is caught, the
  argument is stringified and a new Shelf of that name is created.
\<close>

definition shelf_item :: "pyval \<Rightarrow> state \<Rightarrow> pyval \<times> ref \<times> state" where
  "shelf_item item st =
     (case item of
        ShelfRef r \<Rightarrow> (Str (shelf_name (shelf_heap st ! r)), r, st)
      | _ \<Rightarrow>
          (let shelf_key = py_str st item;
               (r, st') = new_shelf (Shelf_init shelf_key) st
           in (Str shelf_key, r, st')))"

definition add_shelf_item :: "library \<times> state \<Rightarrow> pyval \<Rightarrow> library \<times> state" where
  "add_shelf_item ls item =
     (let (self, st) = ls;
          (shelf_key, shelf_to_add, st1) = shelf_item item st
      in if map_of (shelves self) shelf_key = None then
           (self\<lparr>shelves := AList.update shelf_key shelf_to_add (shelves self)\<rparr>, st1)
         else
           (self, print (''Cannot add '' @ [CHR 0x27] @ py_str st1 shelf_key @ [CHR 0x27]
                          @ '': shelf already exists!'') st1))"

definition add_shelves :: "library \<Rightarrow> pyval list \<Rightarrow> state \<Rightarrow> library \<times> state" where
  "add_shelves self args st = foldl add_shelf_item (self, st) args"


section \<open>Example objects\<close>

text \<open>
  Two Book objects with the same title and one empty Shelf, as left by
  \<^verbatim>\<open>Book("Dune", "Frank Herbert", 412, "A desert planet.", 2)\<close>,
  \<^verbatim>\<open>Book("Dune", "F. Herbert", 896, "Anniversary edition.", 5)\<close> and \<^verbatim>\<open>Shelf("Fantasy")\<close>.
\<close>

definition Dune :: book where
  "Dune = Book_init ''Dune'' ''Frank Herbert'' 412 ''A desert planet.'' 2"

definition Dune_reprint :: book where
  "Dune_reprint = Book_init ''Dune'' ''F. Herbert'' 896 ''Anniversary edition.'' 5"

definition example_store :: state where
  "example_store =
     \<lparr>book_heap = [Dune, Dune_reprint], shelf_heap = [Shelf_init ''Fantasy''], stdout = []\<rparr>"


section \<open>Properties of Book\<close>

lemma copies_ok_call_book: "copies_ok b \<Longrightarrow> copies_ok (call_book b c)"
  by (cases c) (auto simp: copies_ok_def add_copy_def check_out_def check_in_def Let_def)

lemma copies_ok_foldl: "copies_ok b \<Longrightarrow> copies_ok (foldl call_book b cs)"
  by (induction cs arbitrary: b) (simp_all add: copies_ok_call_book)

text \<open>
  C1. A Book created with a number of copies that is not negative satisfies
  \<open>0 \<le> copies \<le> maxcopies\<close> after every sequence of calls of add_copy, check_out and
  check_in.
\<close>

theorem C1_copies_invariant:
  assumes "0 \<le> c"
  shows "0 \<le> copies (call_books (Book_init t a p d c) cs)
    \<and> copies (call_books (Book_init t a p d c) cs) \<le> maxcopies (call_books (Book_init t a p d c) cs)"
proof -
  from assms have "copies_ok (Book_init t a p d c)"
    by (simp add: copies_ok_def Book_init_def)
  then have "copies_ok (call_books (Book_init t a p d c) cs)"
    unfolding call_books_def by (rule copies_ok_foldl)
  then show ?thesis
    by (simp add: copies_ok_def)
qed

theorem C1_copies_invariant_witness:
  "(0::int) \<le> 1
   \<and> call_books (Book_init ''Dune'' '''' 0 '''' 1) [Check_out, Check_out, Check_in, Add_copy, Check_in]
     = \<lparr>title = ''Dune'', author = '''', page_count = 0, desc = '''', copies = 2, maxcopies = 2\<rparr>
   \<and> 0 \<le> copies (call_books (Book_init ''Dune'' '''' 0 '''' 1) [Check_out, Check_out, Check_in, Add_copy, Check_in])
   \<and> copies (call_books (Book_init ''Dune'' '''' 0 '''' 1) [Check_out, Check_out, Check_in, Add_copy, Check_in])
     \<le> maxcopies (call_books (Book_init ''Dune'' '''' 0 '''' 1) [Check_out, Check_out, Check_in, Add_copy, Check_in])"
  using C1_copies_invariant [of 1 "''Dune''" "''''" 0 "''''" "[Check_out, Check_out, Check_in, Add_copy, Check_in]"]
  by (simp add: call_books_def Book_init_def add_copy_def check_out_def check_in_def Let_def)

lemma str_int_1: "str_int 1 = ''1''"
  by code_simp

lemma str_int_2: "str_int 2 = ''2''"
  by code_simp

text \<open>
  C2. check_out on a Book with no copy available leaves the Book as it is (both counts)
  and prints the out-of-stock notice; on a Book with a positive number of copies available
  it takes one from \<open>copies\<close>, leaves \<open>maxcopies\<close>, and prints the report of the new counts.
\<close>

theorem C2_check_out:
  "(copies b = 0 \<longrightarrow>
      check_out b = (b, [''Cannot check out '' @ title b @ '': no more copies!'']))
   \<and> (0 < copies b \<longrightarrow>
      check_out b = (b\<lparr>copies := copies b - 1\<rparr>,
                     [title b @ '' now has '' @ str_int (copies b - 1) @ '' / ''
                       @ str_int (maxcopies b) @ '' copies.'']))"
  by (simp add: check_out_def report_copies_def copy_str_def Let_def)

theorem C2_check_out_witness:
  "copies (Book_init ''Emma'' '''' 0 '''' 0) = 0
   \<and> check_out (Book_init ''Emma'' '''' 0 '''' 0)
       = (Book_init ''Emma'' '''' 0 '''' 0, [''Cannot check out Emma: no more copies!''])
   \<and> 0 < copies (Book_init ''Emma'' '''' 0 '''' 2)
   \<and> check_out (Book_init ''Emma'' '''' 0 '''' 2)
       = ((Book_init ''Emma'' '''' 0 '''' 2)\<lparr>copies := 1\<rparr>, [''Emma now has 1 / 2 copies.''])"
  using C2_check_out [of "Book_init ''Emma'' '''' 0 '''' 0"]
        C2_check_out [of "Book_init ''Emma'' '''' 0 '''' 2"]
  by (simp add: Book_init_def str_int_1 str_int_2)

text \<open>
  C3. check_in on a Book whose copies are all present leaves the Book as it is (both
  counts) and prints the all-copies-present notice; on a Book with fewer copies available
  than owned it adds one to \<open>copies\<close>, leaves \<open>maxcopies\<close>, and prints the report of the
  new counts.
\<close>

theorem C3_check_in:
  "(copies b = maxcopies b \<longrightarrow>
      check_in b = (b, [''All copies of '' @ title b @ '' already accounted for!'']))
   \<and> (copies b < maxcopies b \<longrightarrow>
      check_in b = (b\<lparr>copies := copies b + 1\<rparr>,
                    [title b @ '' now has '' @ str_int (copies b + 1) @ '' / ''
                      @ str_int (maxcopies b) @ '' copies.'']))"
  by (simp add: check_in_def report_copies_def copy_str_def Let_def)

theorem C3_check_in_witness:
  "copies (Book_init ''Emma'' '''' 0 '''' 2) = maxcopies (Book_init ''Emma'' '''' 0 '''' 2)
   \<and> check_in (Book_init ''Emma'' '''' 0 '''' 2)
       = (Book_init ''Emma'' '''' 0 '''' 2, [''All copies of Emma already accounted for!''])
   \<and> copies ((Book_init ''Emma'' '''' 0 '''' 2)\<lparr>copies := 1\<rparr>)
       < maxcopies ((Book_init ''Emma'' '''' 0 '''' 2)\<lparr>copies := 1\<rparr>)
   \<and> check_in ((Book_init ''Emma'' '''' 0 '''' 2)\<lparr>copies := 1\<rparr>)
       = (Book_init ''Emma'' '''' 0 '''' 2, [''Emma now has 2 / 2 copies.''])"
  using C3_check_in [of "Book_init ''Emma'' '''' 0 '''' 2"]
        C3_check_in [of "(Book_init ''Emma'' '''' 0 '''' 2)\<lparr>copies := 1\<rparr>"]
  by (simp add: Book_init_def str_int_2)

text \<open>
  C6. On a Book with \<open>0 < copies \<le> maxcopies\<close>, check_out followed by check_in gives
  \<open>copies\<close> its value from before the pair; \<open>maxcopies\<close> is the same after each of the two
  calls, and the Book as a whole is as before.
\<close>

theorem C6_check_out_check_in:
  assumes "0 < copies b" and "copies b \<le> maxcopies b"
  shows "copies (fst (check_in (fst (check_out b)))) = copies b
       \<and> maxcopies (fst (check_out b)) = maxcopies b
       \<and> maxcopies (fst (check_in (fst (check_out b)))) = maxcopies b
       \<and> fst (check_in (fst (check_out b))) = b"
  using assms by (simp add: check_out_def check_in_def Let_def)

theorem C6_check_out_check_in_witness:
  "0 < copies (Book_titled ''Emma'')
   \<and> copies (Book_titled ''Emma'') \<le> maxcopies (Book_titled ''Emma'')
   \<and> copies (fst (check_out (Book_titled ''Emma''))) = 0
   \<and> copies (fst (check_in (fst (check_out (Book_titled ''Emma''))))) = 1
   \<and> maxcopies (fst (check_out (Book_titled ''Emma''))) = 1
   \<and> maxcopies (fst (check_in (fst (check_out (Book_titled ''Emma''))))) = 1
   \<and> fst (check_in (fst (check_out (Book_titled ''Emma'')))) = Book_titled ''Emma''"
proof -
  have h1: "0 < copies (Book_titled ''Emma'')"
    by (simp add: Book_titled_def Book_init_def)
  have h2: "copies (Book_titled ''Emma'') \<le> maxcopies (Book_titled ''Emma'')"
    by (simp add: Book_titled_def Book_init_def)
  have mid: "copies (fst (check_out (Book_titled ''Emma''))) = 0"
    by (simp add: Book_titled_def Book_init_def check_out_def Let_def)
  have one: "copies (Book_titled ''Emma'') = 1" "maxcopies (Book_titled ''Emma'') = 1"
    by (simp_all add: Book_titled_def Book_init_def)
  show ?thesis
    using h1 h2 mid C6_check_out_check_in [OF h1 h2]
    by (simp add: one)
qed

text \<open>
  C9. The constructor takes \<open>copies = 0\<close>: the Book made has \<open>copies = maxcopies = 0\<close>, and
  check_out on it prints the out-of-stock notice and leaves it as it is.
\<close>

theorem C9_zero_copies:
  "copies (Book_init t a p d 0) = 0
   \<and> maxcopies (Book_init t a p d 0) = 0
   \<and> check_out (Book_init t a p d 0)
       = (Book_init t a p d 0, [''Cannot check out '' @ t @ '': no more copies!''])"
  by (simp add: Book_init_def check_out_def)


section \<open>Properties of Shelf\<close>

lemma add_books_snoc:
  "add_books self (pre @ [item]) st = add_book_item self (add_books self pre st) item"
  by (simp add: add_books_def)

lemma book_item_shelf_heap:
  "book_item item m = (k, b, m1) \<Longrightarrow> shelf_heap m1 = shelf_heap m"
  by (cases item) (auto simp: book_item_def new_book_def Let_def)

lemma book_item_book_heap:
  "book_item item m = (k, b, m1) \<Longrightarrow> \<exists>bs. book_heap m1 = book_heap m @ bs"
  by (cases item) (auto simp: book_item_def new_book_def Let_def)

lemma add_book_item_existing:
  assumes "book_item item m = (k, b, m1)"
      and "map_of (books (shelf_heap m ! self)) k = Some r"
  shows "add_book_item self m item
         = m1\<lparr>book_heap := (book_heap m1)[r := add_copy (book_heap m1 ! r)]\<rparr>"
  using assms book_item_shelf_heap [OF assms(1)]
  by (simp add: add_book_item_def)

text \<open>
  C4. Take any call of add_books on a shelf and any of its arguments: \<open>m\<close> is the store
  when the loop reaches the argument and \<open>k\<close> is the key that the argument gives. When \<open>k\<close>
  is already a key of the shelf, for the Book \<open>r\<close> stored there, the loop body adds exactly
  one to \<open>maxcopies\<close> and to \<open>copies\<close> of that Book, and the dictionary of the shelf is
  the same afterwards, so it has as many entries as before and no second one for \<open>k\<close>.
\<close>

theorem C4_existing_title_adds_copy:
  fixes self :: ref and pre :: "pyval list" and st :: state and item :: pyval
  defines "m \<equiv> add_books self pre st"
  defines "st' \<equiv> add_books self (pre @ [item]) st"
  assumes item: "book_item item m = (k, b, m1)"
      and key: "map_of (books (shelf_heap m ! self)) k = Some r"
      and r: "r < length (book_heap m)"
  shows "maxcopies (book_heap st' ! r) = maxcopies (book_heap m ! r) + 1
       \<and> copies (book_heap st' ! r) = copies (book_heap m ! r) + 1
       \<and> length (books (shelf_heap st' ! self)) = length (books (shelf_heap m ! self))
       \<and> books (shelf_heap st' ! self) = books (shelf_heap m ! self)"
proof -
  from book_item_book_heap [OF item] obtain bs where bs: "book_heap m1 = book_heap m @ bs" ..
  have st': "st' = m1\<lparr>book_heap := (book_heap m1)[r := add_copy (book_heap m1 ! r)]\<rparr>"
    unfolding st'_def add_books_snoc using item key
    by (simp add: add_book_item_existing m_def)
  have old: "book_heap m1 ! r = book_heap m ! r"
    using r by (simp add: bs nth_append)
  have "book_heap st' ! r = add_copy (book_heap m ! r)"
    using r by (simp add: st' old) (simp add: bs)
  moreover have "shelf_heap st' = shelf_heap m"
    by (simp add: st' book_item_shelf_heap [OF item])
  ultimately show ?thesis
    by (simp add: add_copy_def)
qed

theorem C4_existing_title_adds_copy_witness:
  "book_item (Str ''dune'') (add_books 0 [BookRef 0] example_store)
     = (Str ''Dune'', 2,
        \<lparr>book_heap = [Dune, Dune_reprint, Book_titled ''Dune''],
         shelf_heap = [\<lparr>shelf_name = ''Fantasy'', books = [(Str ''Dune'', 0)]\<rparr>],
         stdout = []\<rparr>)
   \<and> map_of (books (shelf_heap (add_books 0 [BookRef 0] example_store) ! 0)) (Str ''Dune'') = Some 0
   \<and> 0 < length (book_heap (add_books 0 [BookRef 0] example_store))
   \<and> maxcopies (book_heap (add_books 0 [BookRef 0] example_store) ! 0) = 2
   \<and> copies (book_heap (add_books 0 [BookRef 0] example_store) ! 0) = 2
   \<and> length (books (shelf_heap (add_books 0 [BookRef 0] example_store) ! 0)) = 1
   \<and> maxcopies (book_heap (add_books 0 ([BookRef 0] @ [Str ''dune'']) example_store) ! 0) = 3
   \<and> copies (book_heap (add_books 0 ([BookRef 0] @ [Str ''dune'']) example_store) ! 0) = 3
   \<and> length (books (shelf_heap (add_books 0 ([BookRef 0] @ [Str ''dune'']) example_store) ! 0)) = 1"
proof -
  have h1: "book_item (Str ''dune'') (add_books 0 [BookRef 0] example_store)
     = (Str ''Dune'', 2,
        \<lparr>book_heap = [Dune, Dune_reprint, Book_titled ''Dune''],
         shelf_heap = [\<lparr>shelf_name = ''Fantasy'', books = [(Str ''Dune'', 0)]\<rparr>],
         stdout = []\<rparr>)"
    by code_simp
  have h2: "map_of (books (shelf_heap (add_books 0 [BookRef 0] example_store) ! 0)) (Str ''Dune'') = Some 0"
    by code_simp
  have h3: "0 < length (book_heap (add_books 0 [BookRef 0] example_store))"
    by code_simp
  have v1: "maxcopies (book_heap (add_books 0 [BookRef 0] example_store) ! 0) = 2"
    by code_simp
  have v2: "copies (book_heap (add_books 0 [BookRef 0] example_store) ! 0) = 2"
    by code_simp
  have v3: "length (books (shelf_heap (add_books 0 [BookRef 0] example_store) ! 0)) = 1"
    by code_simp
  show ?thesis
    using h1 h2 h3 v1 v2 v3 C4_existing_title_adds_copy [OF h1 h2 h3]
    by simp
qed

lemma book_item_label:
  assumes "\<not> is_Book item"
  shows "book_item item m
         = (Str (str_title (py_str m item)), length (book_heap m),
            m\<lparr>book_heap := book_heap m @ [Book_titled (str_title (py_str m item))]\<rparr>)"
  using assms by (cases item) (simp_all add: book_item_def new_book_def is_Book_def Let_def)

lemma update_absent:
  "k \<notin> fst ` set al \<Longrightarrow> AList.update k v al = al @ [(k, v)]"
  by (induction al) auto

text \<open>
  C8. Take any call of add_books on a shelf and any of its arguments that is not a Book:
  \<open>k\<close> is the argument stringified and title-cased. When \<open>k\<close> is not a key of the shelf,
  the shelf afterwards holds under \<open>k\<close> the Book just created, whose title is \<open>k\<close>, whose
  other fields have their defaults and whose counts are both 1; the shelf has one entry more.
\<close>

theorem C8_new_label_inserts_book:
  fixes self :: ref and pre :: "pyval list" and st :: state and item :: pyval
  defines "m \<equiv> add_books self pre st"
  defines "st' \<equiv> add_books self (pre @ [item]) st"
  assumes label: "\<not> is_Book item"
      and k: "k = str_title (py_str m item)"
      and new: "map_of (books (shelf_heap m ! self)) (Str k) = None"
      and self: "self < length (shelf_heap m)"
  shows "map_of (books (shelf_heap st' ! self)) (Str k) = Some (length (book_heap m))
       \<and> book_heap st' ! length (book_heap m)
           = \<lparr>title = k, author = '''', page_count = 0, desc = '''', copies = 1, maxcopies = 1\<rparr>
       \<and> length (books (shelf_heap st' ! self)) = length (books (shelf_heap m ! self)) + 1"
proof -
  let ?r = "length (book_heap m)"
  let ?m1 = "m\<lparr>book_heap := book_heap m @ [Book_titled k]\<rparr>"
  have item: "book_item item m = (Str k, ?r, ?m1)"
    using book_item_label [OF label] by (simp add: k)
  have st': "st' = ?m1\<lparr>shelf_heap := (shelf_heap m)
                 [self := (shelf_heap m ! self)
                    \<lparr>books := AList.update (Str k) ?r (books (shelf_heap m ! self))\<rparr>]\<rparr>"
    unfolding st'_def add_books_snoc m_def [symmetric]
    using new by (simp add: add_book_item_def item)
  have sh: "books (shelf_heap st' ! self) = AList.update (Str k) ?r (books (shelf_heap m ! self))"
    using self by (simp add: st')
  have absent: "Str k \<notin> fst ` set (books (shelf_heap m ! self))"
    using new by (simp add: map_of_eq_None_iff)
  have "map_of (books (shelf_heap st' ! self)) (Str k) = Some ?r"
    by (simp add: sh update_conv')
  moreover have "book_heap st' ! ?r = Book_titled k"
    by (simp add: st')
  moreover have "length (books (shelf_heap st' ! self)) = length (books (shelf_heap m ! self)) + 1"
    using absent by (simp add: sh update_absent)
  ultimately show ?thesis
    by (simp add: Book_titled_def Book_init_def)
qed

theorem C8_new_label_inserts_book_witness:
  "\<not> is_Book (Str ''the scar'')
   \<and> ''The Scar'' = str_title (py_str (add_books 0 [BookRef 0] example_store) (Str ''the scar''))
   \<and> map_of (books (shelf_heap (add_books 0 [BookRef 0] example_store) ! 0)) (Str ''The Scar'') = None
   \<and> 0 < length (shelf_heap (add_books 0 [BookRef 0] example_store))
   \<and> length (book_heap (add_books 0 [BookRef 0] example_store)) = 2
   \<and> length (books (shelf_heap (add_books 0 [BookRef 0] example_store) ! 0)) = 1
   \<and> map_of (books (shelf_heap (add_books 0 ([BookRef 0] @ [Str ''the scar'']) example_store) ! 0))
        (Str ''The Scar'') = Some 2
   \<and> book_heap (add_books 0 ([BookRef 0] @ [Str ''the scar'']) example_store) ! 2
       = \<lparr>title = ''The Scar'', author = '''', page_count = 0, desc = '''', copies = 1, maxcopies = 1\<rparr>
   \<and> length (books (shelf_heap (add_books 0 ([BookRef 0] @ [Str ''the scar'']) example_store) ! 0)) = 2"
proof -
  have h1: "\<not> is_Book (Str ''the scar'')"
    by (simp add: is_Book_def)
  have h2: "''The Scar'' = str_title (py_str (add_books 0 [BookRef 0] example_store) (Str ''the scar''))"
    by code_simp
  have h3: "map_of (books (shelf_heap (add_books 0 [BookRef 0] example_store) ! 0)) (Str ''The Scar'') = None"
    by code_simp
  have h4: "0 < length (shelf_heap (add_books 0 [BookRef 0] example_store))"
    by code_simp
  have v1: "length (book_heap (add_books 0 [BookRef 0] example_store)) = 2"
    by code_simp
  have v2: "length (books (shelf_heap (add_books 0 [BookRef 0] example_store) ! 0)) = 1"
    by code_simp
  show ?thesis
    using h1 h2 h3 h4 v1 v2 C8_new_label_inserts_book [OF h1 h2 h3 h4]
    by simp
qed

text \<open>
  C10. Take any call of add_books on a shelf and any of its arguments that is a Book \<open>i\<close>
  whose title is already a key of the shelf, for the Book \<open>r\<close> stored there. The stored Book
  keeps its title, author, page count and description, and each of its counts grows by
  exactly one, whatever the counts of \<open>i\<close> are. The argument is not stored: no shelf changes,
  and no Book other than \<open>r\<close> changes.
\<close>

theorem C10_stored_book_keeps_metadata:
  fixes self :: ref and pre :: "pyval list" and st :: state and i :: ref
  defines "m \<equiv> add_books self pre st"
  defines "st' \<equiv> add_books self (pre @ [BookRef i]) st"
  assumes key: "map_of (books (shelf_heap m ! self)) (Str (title (book_heap m ! i))) = Some r"
      and r: "r < length (book_heap m)"
  shows "title (book_heap st' ! r) = title (book_heap m ! r)
       \<and> author (book_heap st' ! r) = author (book_heap m ! r)
       \<and> page_count (book_heap st' ! r) = page_count (book_heap m ! r)
       \<and> desc (book_heap st' ! r) = desc (book_heap m ! r)
       \<and> copies (book_heap st' ! r) = copies (book_heap m ! r) + 1
       \<and> maxcopies (book_heap st' ! r) = maxcopies (book_heap m ! r) + 1
       \<and> shelf_heap st' = shelf_heap m
       \<and> book_heap st' = (book_heap m)[r := add_copy (book_heap m ! r)]"
proof -
  have item: "book_item (BookRef i) m = (Str (title (book_heap m ! i)), i, m)"
    by (simp add: book_item_def)
  have st': "st' = m\<lparr>book_heap := (book_heap m)[r := add_copy (book_heap m ! r)]\<rparr>"
    unfolding st'_def add_books_snoc m_def [symmetric]
    using add_book_item_existing [OF item key] .
  have "book_heap st' ! r = add_copy (book_heap m ! r)"
    using r by (simp add: st')
  then show ?thesis
    by (simp add: st' add_copy_def)
qed

theorem C10_stored_book_keeps_metadata_witness:
  "map_of (books (shelf_heap (add_books 0 [BookRef 0] example_store) ! 0))
     (Str (title (book_heap (add_books 0 [BookRef 0] example_store) ! 1))) = Some 0
   \<and> 0 < length (book_heap (add_books 0 [BookRef 0] example_store))
   \<and> book_heap (add_books 0 [BookRef 0] example_store) = [Dune, Dune_reprint]
   \<and> copies Dune_reprint = 5
   \<and> book_heap (add_books 0 ([BookRef 0] @ [BookRef 1]) example_store)
       = [Dune\<lparr>copies := 3, maxcopies := 3\<rparr>, Dune_reprint]
   \<and> author (book_heap (add_books 0 ([BookRef 0] @ [BookRef 1]) example_store) ! 0) = ''Frank Herbert''
   \<and> shelf_heap (add_books 0 ([BookRef 0] @ [BookRef 1]) example_store)
       = [\<lparr>shelf_name = ''Fantasy'', books = [(Str ''Dune'', 0)]\<rparr>]"
proof -
  have h1: "map_of (books (shelf_heap (add_books 0 [BookRef 0] example_store) ! 0))
     (Str (title (book_heap (add_books 0 [BookRef 0] example_store) ! 1))) = Some 0"
    by code_simp
  have h2: "0 < length (book_heap (add_books 0 [BookRef 0] example_store))"
    by code_simp
  have v1: "book_heap (add_books 0 [BookRef 0] example_store) = [Dune, Dune_reprint]"
    by code_simp
  have v2: "shelf_heap (add_books 0 [BookRef 0] example_store)
       = [\<lparr>shelf_name = ''Fantasy'', books = [(Str ''Dune'', 0)]\<rparr>]"
    by code_simp
  have v3: "copies Dune_reprint = 5" "copies Dune = 2" "maxcopies Dune = 2"
    "author Dune = ''Frank Herbert''"
    by (simp_all add: Dune_def Dune_reprint_def Book_init_def)
  show ?thesis
    using h1 h2 v1 v3 C10_stored_book_keeps_metadata [OF h1 h2]
    by (simp add: v2 add_copy_def)
qed

section \<open>Properties of Library\<close>

lemma add_shelves_snoc:
  "add_shelves lib (pre @ [item]) st = add_shelf_item (add_shelves lib pre st) item"
  by (simp add: add_shelves_def)

lemma shelf_item_book_heap:
  "shelf_item item m = (k, s, m1) \<Longrightarrow> book_heap m1 = book_heap m"
  by (cases item) (auto simp: shelf_item_def new_shelf_def Let_def)

lemma shelf_item_stdout:
  "shelf_item item m = (k, s, m1) \<Longrightarrow> stdout m1 = stdout m"
  by (cases item) (auto simp: shelf_item_def new_shelf_def Let_def)

lemma shelf_item_shelf_heap:
  "shelf_item item m = (k, s, m1) \<Longrightarrow> \<exists>ss. shelf_heap m1 = shelf_heap m @ ss"
  by (cases item) (auto simp: shelf_item_def new_shelf_def Let_def)

text \<open>
  C5. Take any call of add_shelves on a library and any of its arguments: \<open>lib1\<close> and \<open>m\<close>
  are the library and the store when the loop reaches the argument and \<open>n\<close> is the name
  that the argument gives. When \<open>n\<close> is already a key of the library, for the Shelf \<open>r\<close>
  stored there, the library is the same afterwards (as many shelves as before, and \<open>n\<close> still
  leads to \<open>r\<close>), the Shelf \<open>r\<close> and every Book are the same as before, and the one line
  printed is the notice that the shelf already exists.
\<close>

theorem C5_duplicate_shelf_rejected:
  fixes lib :: library and pre :: "pyval list" and st :: state and item :: pyval
  defines "lib1 \<equiv> fst (add_shelves lib pre st)"
  defines "m \<equiv> snd (add_shelves lib pre st)"
  defines "lib' \<equiv> fst (add_shelves lib (pre @ [item]) st)"
  defines "st' \<equiv> snd (add_shelves lib (pre @ [item]) st)"
  assumes item: "shelf_item item m = (Str n, s, m1)"
      and key: "map_of (shelves lib1) (Str n) = Some r"
      and r: "r < length (shelf_heap m)"
  shows "lib' = lib1
       \<and> length (shelves lib') = length (shelves lib1)
       \<and> map_of (shelves lib') (Str n) = Some r
       \<and> shelf_heap st' ! r = shelf_heap m ! r
       \<and> book_heap st' = book_heap m
       \<and> stdout st' = stdout m @ [''Cannot add '' @ [CHR 0x27] @ n @ [CHR 0x27]
                                     @ '': shelf already exists!'']"
proof -
  from shelf_item_shelf_heap [OF item] obtain ss where ss: "shelf_heap m1 = shelf_heap m @ ss" ..
  have pair: "add_shelves lib pre st = (lib1, m)"
    by (simp add: lib1_def m_def)
  have step: "add_shelves lib (pre @ [item]) st
              = (lib1, print (''Cannot add '' @ [CHR 0x27] @ n @ [CHR 0x27]
                               @ '': shelf already exists!'') m1)"
    using key by (simp add: add_shelves_snoc pair add_shelf_item_def item py_str_def)
  have lib': "lib' = lib1"
    by (simp add: lib'_def step)
  have st': "st' = print (''Cannot add '' @ [CHR 0x27] @ n @ [CHR 0x27]
                           @ '': shelf already exists!'') m1"
    by (simp add: st'_def step)
  have "shelf_heap st' ! r = shelf_heap m ! r"
    using r by (simp add: st' print_def ss nth_append)
  moreover have "book_heap st' = book_heap m"
    by (simp add: st' print_def shelf_item_book_heap [OF item])
  moreover have "stdout st' = stdout m @ [''Cannot add '' @ [CHR 0x27] @ n @ [CHR 0x27]
                                     @ '': shelf already exists!'']"
    by (simp add: st' print_def shelf_item_stdout [OF item])
  ultimately show ?thesis
    using key by (simp add: lib')
qed

theorem C5_duplicate_shelf_rejected_witness:
  "shelf_item (Str ''Fantasy'')
       (snd (add_shelves (Library_init ''Bellevue'') [ShelfRef 0] (add_books 0 [BookRef 0] example_store)))
     = (Str ''Fantasy'', 1,
        \<lparr>book_heap = [Dune, Dune_reprint],
         shelf_heap = [\<lparr>shelf_name = ''Fantasy'', books = [(Str ''Dune'', 0)]\<rparr>, Shelf_init ''Fantasy''],
         stdout = []\<rparr>)
   \<and> map_of (shelves (fst (add_shelves (Library_init ''Bellevue'') [ShelfRef 0]
                                (add_books 0 [BookRef 0] example_store)))) (Str ''Fantasy'') = Some 0
   \<and> 0 < length (shelf_heap (snd (add_shelves (Library_init ''Bellevue'') [ShelfRef 0]
                                (add_books 0 [BookRef 0] example_store))))
   \<and> fst (add_shelves (Library_init ''Bellevue'') ([ShelfRef 0] @ [Str ''Fantasy''])
            (add_books 0 [BookRef 0] example_store))
       = \<lparr>library_name = ''Bellevue'', shelves = [(Str ''Fantasy'', 0)]\<rparr>
   \<and> shelf_heap (snd (add_shelves (Library_init ''Bellevue'') ([ShelfRef 0] @ [Str ''Fantasy''])
            (add_books 0 [BookRef 0] example_store))) ! 0
       = \<lparr>shelf_name = ''Fantasy'', books = [(Str ''Dune'', 0)]\<rparr>
   \<and> stdout (snd (add_shelves (Library_init ''Bellevue'') ([ShelfRef 0] @ [Str ''Fantasy''])
            (add_books 0 [BookRef 0] example_store)))
       = [''Cannot add '' @ [CHR 0x27] @ ''Fantasy'' @ [CHR 0x27] @ '': shelf already exists!'']"
proof -
  let ?ls = "add_shelves (Library_init ''Bellevue'') [ShelfRef 0] (add_books 0 [BookRef 0] example_store)"
  have h1: "shelf_item (Str ''Fantasy'') (snd ?ls)
     = (Str ''Fantasy'', 1,
        \<lparr>book_heap = [Dune, Dune_reprint],
         shelf_heap = [\<lparr>shelf_name = ''Fantasy'', books = [(Str ''Dune'', 0)]\<rparr>, Shelf_init ''Fantasy''],
         stdout = []\<rparr>)"
    by code_simp
  have h2: "map_of (shelves (fst ?ls)) (Str ''Fantasy'') = Some 0"
    by code_simp
  have h3: "0 < length (shelf_heap (snd ?ls))"
    by code_simp
  have v1: "fst ?ls = \<lparr>library_name = ''Bellevue'', shelves = [(Str ''Fantasy'', 0)]\<rparr>"
    by code_simp
  have v2: "shelf_heap (snd ?ls) ! 0 = \<lparr>shelf_name = ''Fantasy'', books = [(Str ''Dune'', 0)]\<rparr>"
    by code_simp
  have v3: "stdout (snd ?ls) = []"
    by code_simp
  show ?thesis
    using h1 h2 h3 C5_duplicate_shelf_rejected [OF h1 h2 h3]
    by (simp add: v1 v2 v3)
qed

section \<open>Book and its shelf: enshelf and unshelf\<close>

text \<open>Whatever the Book, the shelf and the store, enshelf raises.\<close>

lemma enshelf_raises: "enshelf self shelf_arg st = Inl AttributeError"
  by (simp add: enshelf_def Shelf_getattr_def)

text \<open>
  C7. enshelf and unshelf are meant to add the Book to the shelf and to remove it, as the
  add and the remove operation of the shelf do when called with the title of the Book. On
  a shelf that holds the Book Dune they do neither: enshelf raises AttributeError, where
  add_books with the title gives the stored Book a copy; unshelf prints that the Book is
  not found and leaves the shelf as it is, where remove_book with the title empties it.
\<close>

theorem C7_enshelf_unshelf_on_shelved_book:
  "add_books 0 [BookRef 0] example_store
     = \<lparr>book_heap = [Dune, Dune_reprint],
        shelf_heap = [\<lparr>shelf_name = ''Fantasy'', books = [(Str ''Dune'', 0)]\<rparr>],
        stdout = []\<rparr>
   \<and> title (book_heap (add_books 0 [BookRef 0] example_store) ! 0) = ''Dune''
   \<and> enshelf 0 0 (add_books 0 [BookRef 0] example_store) = Inl AttributeError
   \<and> add_books 0 [Str ''Dune''] (add_books 0 [BookRef 0] example_store)
       = \<lparr>book_heap = [Dune\<lparr>copies := 3, maxcopies := 3\<rparr>, Dune_reprint, Book_titled ''Dune''],
          shelf_heap = [\<lparr>shelf_name = ''Fantasy'', books = [(Str ''Dune'', 0)]\<rparr>],
          stdout = []\<rparr>
   \<and> unshelf 0 0 (add_books 0 [BookRef 0] example_store)
       = Inr \<lparr>book_heap = [Dune, Dune_reprint],
              shelf_heap = [\<lparr>shelf_name = ''Fantasy'', books = [(Str ''Dune'', 0)]\<rparr>],
              stdout = [''Title: Dune'' @ [CHR 0x0A] @ ''Author: Frank Herbert'' @ [CHR 0x0A]
                        @ ''Pages: 412'' @ [CHR 0x0A] @ ''Copies: 2 / 2'' @ [CHR 0x0A]
                        @ ''Description: A desert planet. not found in Fantasy!'']\<rparr>
   \<and> remove_book 0 (Str ''Dune'') (add_books 0 [BookRef 0] example_store)
       = \<lparr>book_heap = [Dune, Dune_reprint],
          shelf_heap = [\<lparr>shelf_name = ''Fantasy'', books = []\<rparr>],
          stdout = []\<rparr>"
  by code_simp

end
